theory Spec2Isabelle
  imports Complex_Main "HOL-Library.Sublist" "HOL-Library.AList"
begin

section \<open>The tuning driver \<open>tune_relay_microtvm.py\<close>\<close>

text \<open>
  The script sequences calls into the compiler framework. The model keeps what the script
  itself decides: the module-level device dispatch, the values it hands to the framework,
  the module-level dictionary \<open>DEV_CONFIG\<close> it mutates, and the order of the calls that
  have an effect outside the process, recorded as a trace of events. What the framework
  returns (the tracker's summary, the generated layouts, the extracted tasks) is a field
  of the record \<open>world\<close>; an exception raised inside the framework is outside the model.
\<close>

subsection \<open>Python values and errors\<close>

datatype error =
    NameError string
  | AssertionError
  | RuntimeError string

text \<open>The exception classes a \<open>raise Name(msg)\<close> of this file can resolve among the builtins.\<close>

definition builtin_exception :: "string \<Rightarrow> (string \<Rightarrow> error) option" where
  "builtin_exception cls =
     (if cls = ''RuntimeError'' then Some RuntimeError
      else if cls = ''NameError'' then Some NameError
      else if cls = ''AssertionError'' then Some (\<lambda>_. AssertionError)
      else None)"

text \<open>
  \<open>raise cls(msg)\<close>: the name \<open>cls\<close> is looked up before the call; a name that is bound
  nowhere raises \<open>NameError\<close> instead of the exception that was meant.
\<close>

definition py_raise :: "string \<Rightarrow> string \<Rightarrow> error" where
  "py_raise cls msg =
     (case builtin_exception cls of None \<Rightarrow> NameError cls | Some mk \<Rightarrow> mk msg)"

text \<open>Reading a variable: the names in scope, each with its \<open>str()\<close> rendering.\<close>

definition load_name :: "(string \<rightharpoonup> string) \<Rightarrow> string \<Rightarrow> error + string" where
  "load_name scope n = (case scope n of None \<Rightarrow> Inl (NameError n) | Some v \<Rightarrow> Inr v)"

datatype pynum = PyInt int | PyFloat real

datatype pyval =
    PyNone
  | PyBool bool
  | PyNum pynum
  | PyStr string
  | PyList "pyval list"
  | PyDict "(string \<times> pyval) list"

type_synonym dict = "(string \<times> pyval) list"

subsection \<open>Strings\<close>

text \<open>\<open>sub in s\<close> on Python strings: \<open>sub\<close> occurs in \<open>s\<close> as a contiguous run.\<close>

fun str_in :: "string \<Rightarrow> string \<Rightarrow> bool" where
  "str_in sub [] = (sub = [])"
| "str_in sub (c # cs) = (prefix sub (c # cs) \<or> str_in sub cs)"

text \<open>\<open>s.split('\n')\<close>: the pieces between newlines; never an empty list.\<close>

fun split_nl :: "string \<Rightarrow> string list" where
  "split_nl [] = ['''']"
| "split_nl (c # cs) =
     (if c = CHR 0x0A then [] # split_nl cs
      else (case split_nl cs of [] \<Rightarrow> [c] # [] | l # ls \<Rightarrow> (c # l) # ls))"

text \<open>Decimal rendering of a non-negative integer, as \<open>str\<close>, \<open>{i}\<close> and \<open>%d\<close> give it.\<close>

definition digit_char :: "nat \<Rightarrow> char" where
  "digit_char d = char_of (48 + d)"

fun str_nat :: "nat \<Rightarrow> string" where
  "str_nat n = (if n < 10 then [digit_char n] else str_nat (n div 10) @ [digit_char (n mod 10)])"

declare str_nat.simps [simp del]

text \<open>\<open>'%2d' % n\<close>: right-justified in a field of width 2.\<close>

definition fmt_2d :: "nat \<Rightarrow> string" where
  "fmt_2d n = replicate (2 - length (str_nat n)) CHR '' '' @ str_nat n"

subsection \<open>What the framework supplies\<close>

datatype MemConstraint = ABSOLUTE_BYTES | WEIGHT

type_synonym section_constraints = "(string \<times> pynum \<times> MemConstraint) list"

text \<open>The three kernel templates imported from \<open>micro_eval.micro_topi.cortex_m7.conv2d\<close>.\<close>

datatype op_strategy = conv2d_direct | conv2d_direct_simd | conv2d_partial_im2col

text \<open>A tuning task; the script reads only \<open>len(task.config_space)\<close>.\<close>

record task =
  task_name :: string
  config_space_len :: nat

text \<open>
  The type \<open>'m\<close> is the relay function \<open>mod['main']\<close> that \<open>gen_cifar10_cnn\<close> builds
  and \<open>collect_conv_tasks\<close> reads.
\<close>

record 'm world =
  environ :: "string \<rightharpoonup> string"
  stm32f746xx_DEVICE_ID :: string
  host_DEVICE_ID :: string
  host_generate_config :: "section_constraints option \<Rightarrow> dict"
  gen_mem_layout :: "section_constraints \<Rightarrow> pyval"
  text_summary :: string
  default_data_layout :: "op_strategy \<Rightarrow> string"
  default_kernel_layout :: "op_strategy \<Rightarrow> string"
  gen_cifar10_cnn :: "string \<Rightarrow> string \<Rightarrow> string \<Rightarrow> bool \<Rightarrow> 'm"
  collect_conv_tasks :: "'m \<Rightarrow> string \<Rightarrow> string \<Rightarrow> task list"

subsection \<open>Module-level constants\<close>

definition TARGET :: string where
  "TARGET = ''c -device=micro_dev''"

definition N_TRIAL :: nat where
  "N_TRIAL = 500"

definition EARLY_STOPPING :: nat where
  "EARLY_STOPPING = 250"

definition N_PER_TRIAL :: nat where
  "N_PER_TRIAL = 15"

definition N_PARALLEL :: "nat option" where
  "N_PARALLEL = None"

definition TRACKER_ADDR :: string where
  "TRACKER_ADDR = ''0.0.0.0''"

definition TRACKER_PORT :: int where
  "TRACKER_PORT = 9190"

definition TIMEOUT :: int where
  "TIMEOUT = 0"

subsection \<open>Values handed to the framework, and the trace of calls\<close>

datatype lib_type = OPERATOR

record build_func =
  bf_dev_config :: dict
  bf_lib_type :: lib_type
  bf_lib_headers :: "string list option"
  bf_lib_include_paths :: "string list option"

record rpc_runner =
  r_key :: string
  r_host :: string
  r_port :: int
  r_n_parallel :: nat
  r_number :: nat
  r_timeout :: int

record measure_option =
  builder :: build_func
  runner :: rpc_runner

datatype callback = progress_bar nat string | log_to_file string

datatype tuner = GATuner task

datatype event =
    Print string
  | Input string
  | JsonDump string dict
  | ConnectTracker string int
  | TextSummary
  | TaskExtractEnv
  | RegisterTask string op_strategy
  | GenCifar10Cnn string string string bool
  | CollectConvTasks string string
  | Tune tuner nat nat measure_option "callback list"
  | CustomPickBest string string nat
  | OsRemove string

text \<open>
  \<open>Input\<close> is the blocking \<open>input(prompt)\<close>; \<open>JsonDump path d\<close> is
  \<open>open(path, 'w')\<close> followed by \<open>json.dump(d, f, indent=4)\<close>;
  \<open>Tune t n e mo cbs\<close> is \<open>t.tune(n_trial=n, early_stopping=e, measure_option=mo,
  callbacks=cbs)\<close>; \<open>CustomPickBest src dst k\<close> is \<open>custom_pick_best(src, dst, top_k=k)\<close>.
\<close>

record globals =
  DEVICE_ID :: string
  MICRO_HEADERS :: "string list option"
  MICRO_INCLUDE_PATHS :: "string list option"
  OP_STRATEGIES :: "op_strategy list"

record state =
  DEV_CONFIG :: dict
  trace :: "event list"

definition emit :: "event \<Rightarrow> state \<Rightarrow> state" where
  "emit e s = s\<lparr>trace := trace s @ [e]\<rparr>"

text \<open>A \<open>for\<close> loop whose body can raise: the first exception ends it.\<close>

fun for_loop :: "'a list \<Rightarrow> ('a \<Rightarrow> state \<Rightarrow> (error + unit) \<times> state) \<Rightarrow> state
    \<Rightarrow> (error + unit) \<times> state" where
  "for_loop [] body s = (Inr (), s)"
| "for_loop (x # xs) body s =
     (case body x s of
        (Inl e, s') \<Rightarrow> (Inl e, s')
      | (Inr _, s') \<Rightarrow> for_loop xs body s')"

subsection \<open>Module initialisation (lines 121 to 157)\<close>

text \<open>
  The dispatch on \<open>DEVICE_ID\<close>. In the first branch \<open>MICRO_HEADERS = CMSIS_HEADERS\<close> reads
  a name that the import from \<open>micro_eval.util\<close> does not bring in (it imports
  \<open>CMSIS_PATH\<close> and \<open>CMSIS_INCLUDE_PATHS\<close>). In the last branch the script raises
  \<open>RuntimeErorr\<close>.
\<close>

definition device_dispatch :: "'m world \<Rightarrow> string \<Rightarrow> error + globals" where
  "device_dispatch w dev =
     (if dev = stm32f746xx_DEVICE_ID w then Inl (NameError ''CMSIS_HEADERS'')
      else if dev = host_DEVICE_ID w then
        Inr \<lparr>DEVICE_ID = dev, MICRO_HEADERS = None, MICRO_INCLUDE_PATHS = None,
             OP_STRATEGIES = [conv2d_direct, conv2d_direct, conv2d_direct]\<rparr>
      else Inl (py_raise ''RuntimeErorr'' (''unknown device ID \"'' @ dev @ ''\"'')))"

text \<open>\<open>DEVICE_ID = host.DEVICE_ID\<close>, the dispatch, then \<open>DEV_CONFIG = generate_config()\<close>.\<close>

definition module_init :: "'m world \<Rightarrow> error + globals \<times> state" where
  "module_init w =
     (case device_dispatch w (host_DEVICE_ID w) of
        Inl e \<Rightarrow> Inl e
      | Inr g \<Rightarrow> Inr (g, \<lparr>DEV_CONFIG = host_generate_config w None, trace = []\<rparr>))"

subsection \<open>\<open>get_num_devices\<close>\<close>

text \<open>
  The loop over the lines of the summary: \<open>break\<close> at the first line with
  \<open>Queue Status\<close>, otherwise count the line when it mentions the device.
\<close>

fun count_connected :: "string \<Rightarrow> string list \<Rightarrow> nat \<Rightarrow> nat" where
  "count_connected dev_id [] num_connected = num_connected"
| "count_connected dev_id (line # rest) num_connected =
     (if str_in ''Queue Status'' line then num_connected
      else count_connected dev_id rest
             (if str_in dev_id line then num_connected + 1 else num_connected))"

definition get_num_devices :: "'m world \<Rightarrow> string \<Rightarrow> state \<Rightarrow> nat \<times> state" where
  "get_num_devices w dev_id s =
     (let s1 = emit (ConnectTracker TRACKER_ADDR TRACKER_PORT) s;
          summary = text_summary w;
          s2 = emit TextSummary s1
      in (count_connected dev_id (split_nl summary) 0, s2))"

subsection \<open>\<open>tune_model\<close>\<close>

text \<open>One round of the loop over \<open>enumerate(tasks)\<close>; \<open>n\<close> is \<open>len(tasks)\<close>.\<close>

definition tune_task :: "measure_option \<Rightarrow> string \<Rightarrow> nat \<Rightarrow> nat \<times> task \<Rightarrow> event" where
  "tune_task mo tmp_log_file n it =
     (let i = fst it; task = snd it;
          prefix = ''[Task '' @ fmt_2d (i + 1) @ ''/'' @ fmt_2d n @ ''] '';
          tuner = GATuner task
      in Tune tuner (min N_TRIAL (config_space_len task)) EARLY_STOPPING mo
           [progress_bar N_TRIAL prefix, log_to_file tmp_log_file])"

definition tune_model :: "'m world \<Rightarrow> globals \<Rightarrow> task list \<Rightarrow> string \<Rightarrow> state
    \<Rightarrow> (error + unit) \<times> state" where
  "tune_model w g tasks log_file_name s =
     (let (n_parallel, s1) =
            (case N_PARALLEL of
               None \<Rightarrow> get_num_devices w (DEVICE_ID g) s
             | Some n \<Rightarrow> (n, s));
          s2 = emit (Print ''[Tuning]'') s1;
          build_func = \<lparr>bf_dev_config = DEV_CONFIG s2, bf_lib_type = OPERATOR,
                        bf_lib_headers = MICRO_HEADERS g,
                        bf_lib_include_paths = MICRO_INCLUDE_PATHS g\<rparr>;
          runner = \<lparr>r_key = DEVICE_ID g, r_host = TRACKER_ADDR, r_port = TRACKER_PORT,
                    r_n_parallel = n_parallel, r_number = N_PER_TRIAL, r_timeout = TIMEOUT\<rparr>;
          measure_option = \<lparr>builder = build_func, runner = runner\<rparr>;
          tmp_log_file = log_file_name @ ''.tmp'';
          s3 = fold (\<lambda>it. emit (tune_task measure_option tmp_log_file (length tasks) it))
                 (enumerate 0 tasks) s2;
          s4 = emit (CustomPickBest tmp_log_file log_file_name 5) s3;
          s5 = emit (OsRemove tmp_log_file) s4
      in (Inr (), s5))"

subsection \<open>\<open>update_rpc_server_dev_cfg\<close>\<close>

definition direct_sections :: section_constraints where
  "direct_sections =
     [(''text'', PyInt 18000, ABSOLUTE_BYTES),
      (''rodata'', PyInt 100, ABSOLUTE_BYTES),
      (''data'', PyInt 100, ABSOLUTE_BYTES),
      (''bss'', PyInt 600, ABSOLUTE_BYTES),
      (''args'', PyInt 4096, ABSOLUTE_BYTES),
      (''heap'', PyFloat 100, WEIGHT),
      (''workspace'', PyInt 13000, ABSOLUTE_BYTES),
      (''stack'', PyInt 128, ABSOLUTE_BYTES)]"

definition direct_simd_sections :: section_constraints where
  "direct_simd_sections =
     [(''text'', PyInt 18000, ABSOLUTE_BYTES),
      (''rodata'', PyInt 100, ABSOLUTE_BYTES),
      (''data'', PyInt 100, ABSOLUTE_BYTES),
      (''bss'', PyInt 600, ABSOLUTE_BYTES),
      (''args'', PyInt 4096, ABSOLUTE_BYTES),
      (''heap'', PyFloat 100, WEIGHT),
      (''workspace'', PyInt 13000, ABSOLUTE_BYTES),
      (''stack'', PyInt 128, ABSOLUTE_BYTES)]"

definition partial_im2col_sections :: section_constraints where
  "partial_im2col_sections =
     [(''text'', PyInt 18000, ABSOLUTE_BYTES),
      (''rodata'', PyInt 100, ABSOLUTE_BYTES),
      (''data'', PyInt 100, ABSOLUTE_BYTES),
      (''bss'', PyInt 600, ABSOLUTE_BYTES),
      (''args'', PyInt 4096, ABSOLUTE_BYTES),
      (''heap'', PyFloat 100, WEIGHT),
      (''workspace'', PyInt 132000, ABSOLUTE_BYTES),
      (''stack'', PyInt 128, ABSOLUTE_BYTES)]"

text \<open>The \<open>if\<close>/\<open>elif\<close> chain on the template key, ending in \<open>assert False\<close>.\<close>

definition set_mem_layout :: "'m world \<Rightarrow> string \<Rightarrow> state \<Rightarrow> (error + unit) \<times> state" where
  "set_mem_layout w template_key s =
     (if template_key = ''direct'' then
        (Inr (), s\<lparr>DEV_CONFIG :=
           AList.update ''mem_layout'' (gen_mem_layout w direct_sections) (DEV_CONFIG s)\<rparr>)
      else if template_key = ''direct_simd'' then
        (Inr (), s\<lparr>DEV_CONFIG :=
           AList.update ''mem_layout'' (gen_mem_layout w direct_simd_sections) (DEV_CONFIG s)\<rparr>)
      else if template_key = ''partial_im2col'' then
        (Inr (), s\<lparr>DEV_CONFIG :=
           AList.update ''mem_layout'' (gen_mem_layout w partial_im2col_sections) (DEV_CONFIG s)\<rparr>)
      else (Inl AssertionError, s))"

text \<open>
  The module-level names bound to plain configuration values, and the names bound inside
  \<open>update_rpc_server_dev_cfg\<close> when the body of its loop runs. No other binding of the
  module (an import, a function, \<open>TARGET\<close>, \<open>DEV_CONFIG\<close>, \<open>TUNE_OPS\<close>) and no builtin
  is called \<open>RPC_SERVER_DEV_CONFIG_BASE\<close>.
\<close>

definition module_scope :: "globals \<Rightarrow> (string \<times> string) list" where
  "module_scope g =
     [(''DEVICE_ID'', DEVICE_ID g),
      (''N_TRIAL'', str_nat N_TRIAL),
      (''EARLY_STOPPING'', str_nat EARLY_STOPPING),
      (''N_PER_TRIAL'', str_nat N_PER_TRIAL),
      (''N_PARALLEL'', ''None''),
      (''TRACKER_ADDR'', TRACKER_ADDR),
      (''TRACKER_PORT'', str_nat (nat TRACKER_PORT)),
      (''TIMEOUT'', str_nat (nat TIMEOUT))]"

definition update_scope :: "globals \<Rightarrow> string \<Rightarrow> string \<Rightarrow> nat \<Rightarrow> (string \<rightharpoonup> string)" where
  "update_scope g template_key dev_config_base i =
     map_of ([(''template_key'', template_key),
              (''dev_config_base'', dev_config_base),
              (''i'', str_nat i)] @ module_scope g)"

text \<open>
  The body of \<open>for i in range(10)\<close>: the port is stored first, then the path of the file
  is built from the name \<open>RPC_SERVER_DEV_CONFIG_BASE\<close>, then the file is written.
\<close>

definition dump_dev_cfg :: "globals \<Rightarrow> string \<Rightarrow> string \<Rightarrow> nat \<Rightarrow> state
    \<Rightarrow> (error + unit) \<times> state" where
  "dump_dev_cfg g template_key dev_config_base i s =
     (let s1 = s\<lparr>DEV_CONFIG :=
                  AList.update ''server_port'' (PyNum (PyInt (6666 + int i))) (DEV_CONFIG s)\<rparr>
      in case load_name (update_scope g template_key dev_config_base i)
                ''RPC_SERVER_DEV_CONFIG_BASE'' of
           Inl e \<Rightarrow> (Inl e, s1)
         | Inr base \<Rightarrow>
             (Inr (), emit (JsonDump (base @ ''/'' @ str_nat i @ ''/utvm_dev_config.json'')
                              (DEV_CONFIG s1)) s1))"

text \<open>The text of the warning printed when the variable is not set.\<close>

definition WARNING :: string where
  "WARNING = ''WARNING: `RPC_SERVER_DEV_CONFIG_BASE` not in environment. ''
             @ ''RPC server config will not be auto-updated''"

definition update_rpc_server_dev_cfg :: "'m world \<Rightarrow> globals \<Rightarrow> string \<Rightarrow> state
    \<Rightarrow> (error + unit) \<times> state" where
  "update_rpc_server_dev_cfg w g template_key s =
     (case environ w ''MICRO_RPC_SERVER_DEV_CONFIG_BASE'' of
        None \<Rightarrow>
          (Inr (),
           emit (Input ''[press enter to continue]'')
             (emit (Print WARNING) s))
      | Some dev_config_base \<Rightarrow>
          (case set_mem_layout w template_key s of
             (Inl e, s1) \<Rightarrow> (Inl e, s1)
           | (Inr _, s1) \<Rightarrow>
               for_loop [0..<10] (dump_dev_cfg g template_key dev_config_base) s1))"

subsection \<open>\<open>get_tasks\<close>\<close>

text \<open>
  The chain on the template key: only \<open>direct\<close> registers its template (the other two
  registrations are commented out); any other key fails \<open>assert False\<close>.
\<close>

definition select_template :: "string \<Rightarrow> state \<Rightarrow> (error + op_strategy) \<times> state" where
  "select_template template_key s =
     (if template_key = ''direct'' then
        (Inr conv2d_direct, emit (RegisterTask ''topi_nn_conv2d'' conv2d_direct) s)
      else if template_key = ''direct_simd'' then (Inr conv2d_direct_simd, s)
      else if template_key = ''partial_im2col'' then (Inr conv2d_partial_im2col, s)
      else (Inl AssertionError, s))"

definition get_tasks :: "'m world \<Rightarrow> string \<Rightarrow> state \<Rightarrow> (error + task list) \<times> state" where
  "get_tasks w template_key s =
     (case select_template template_key (emit TaskExtractEnv s) of
        (Inl e, s1) \<Rightarrow> (Inl e, s1)
      | (Inr strategy, s1) \<Rightarrow>
          (let data_layout = default_data_layout w strategy;
               kernel_layout = default_kernel_layout w strategy;
               mod_main = gen_cifar10_cnn w data_layout kernel_layout template_key True;
               s2 = emit (GenCifar10Cnn data_layout kernel_layout template_key True) s1;
               tasks = collect_conv_tasks w mod_main TARGET template_key;
               s3 = emit (CollectConvTasks TARGET template_key) s2;
               s4 = emit (Print (''extracted '' @ str_nat (length tasks) @ '' tasks'')) s3
           in if length tasks = 3 then (Inr tasks, s4) else (Inl AssertionError, s4)))"

subsection \<open>\<open>main\<close>\<close>

definition TEMPLATE_KEYS :: "string list" where
  "TEMPLATE_KEYS = [''direct'']"

definition tuning_phase :: "'m world \<Rightarrow> globals \<Rightarrow> string \<Rightarrow> state \<Rightarrow> (error + unit) \<times> state"
  where
  "tuning_phase w g template_key s =
     (let log_file_name = DEVICE_ID g @ ''.'' @ template_key @ ''.e2e.log''
      in case update_rpc_server_dev_cfg w g template_key s of
           (Inl e, s1) \<Rightarrow> (Inl e, s1)
         | (Inr _, s1) \<Rightarrow>
             (case get_tasks w template_key s1 of
                (Inl e, s2) \<Rightarrow> (Inl e, s2)
              | (Inr tasks, s2) \<Rightarrow> tune_model w g tasks log_file_name s2))"

definition main :: "'m world \<Rightarrow> globals \<Rightarrow> state \<Rightarrow> (error + unit) \<times> state" where
  "main w g s = for_loop TEMPLATE_KEYS (tuning_phase w g) s"

subsection \<open>Observing a run\<close>

text \<open>The events a call adds to the trace: those of the state after it, past the ones before.\<close>

definition events_of :: "state \<Rightarrow> state \<Rightarrow> event list" where
  "events_of s s' = drop (length (trace s)) (trace s')"

text \<open>
  The measurement option \<open>tune_model\<close> builds when it is entered in state \<open>s\<close>: the
  cross-compiler over the current \<open>DEV_CONFIG\<close> and the runner on the tracker.
\<close>

definition measure_option_of :: "'m world \<Rightarrow> globals \<Rightarrow> state \<Rightarrow> measure_option" where
  "measure_option_of w g s =
     \<lparr>builder = \<lparr>bf_dev_config = DEV_CONFIG s, bf_lib_type = OPERATOR,
                  bf_lib_headers = MICRO_HEADERS g,
                  bf_lib_include_paths = MICRO_INCLUDE_PATHS g\<rparr>,
      runner = \<lparr>r_key = DEVICE_ID g, r_host = TRACKER_ADDR, r_port = TRACKER_PORT,
                 r_n_parallel = fst (get_num_devices w (DEVICE_ID g) s),
                 r_number = N_PER_TRIAL, r_timeout = TIMEOUT\<rparr>\<rparr>"

text \<open>What an event does to the log files: a tuning run records to the files of its
  \<open>log_to_file\<close> callbacks, \<open>custom_pick_best\<close> reads one file and writes another,
  \<open>os.remove\<close> deletes one.\<close>

datatype log_op = RecordTo "string list" | PickBest string string nat | Remove string

fun log_target :: "callback \<Rightarrow> string option" where
  "log_target (log_to_file p) = Some p"
| "log_target (progress_bar n p) = None"

fun log_op_of :: "event \<Rightarrow> log_op option" where
  "log_op_of (Tune t n e mo cbs) = Some (RecordTo (List.map_filter log_target cbs))"
| "log_op_of (CustomPickBest src dst k) = Some (PickBest src dst k)"
| "log_op_of (OsRemove p) = Some (Remove p)"
| "log_op_of _ = None"

text \<open>The task, the trial count and the early-stopping bound of a tuning run.\<close>

fun tune_budget :: "event \<Rightarrow> (task \<times> nat \<times> nat) option" where
  "tune_budget (Tune (GATuner t) n e mo cbs) = Some (t, n, e)"
| "tune_budget _ = None"

text \<open>The tuner of a tuning run and the runner that measures for it.\<close>

fun tune_dispatch :: "event \<Rightarrow> (tuner \<times> rpc_runner) option" where
  "tune_dispatch (Tune t n e mo cbs) = Some (t, runner mo)"
| "tune_dispatch _ = None"

fun tune_n_parallel :: "event \<Rightarrow> nat option" where
  "tune_n_parallel (Tune t n e mo cbs) = Some (r_n_parallel (runner mo))"
| "tune_n_parallel _ = None"

text \<open>The path of a configuration file an event writes.\<close>

fun written_path :: "event \<Rightarrow> string option" where
  "written_path (JsonDump p d) = Some p"
| "written_path _ = None"

text \<open>The inverse of \<open>split('\n')\<close>, to check the model of the split against.\<close>

fun join_nl :: "string list \<Rightarrow> string" where
  "join_nl [] = []"
| "join_nl [l] = l"
| "join_nl (l # ls) = l @ CHR 0x0A # join_nl ls"

text \<open>The tasks \<open>get_tasks\<close> extracts for a template: those collected from the generated
  CIFAR-10 network.\<close>

definition extracted :: "'m world \<Rightarrow> op_strategy \<Rightarrow> string \<Rightarrow> task list" where
  "extracted w strategy k =
     collect_conv_tasks w
       (gen_cifar10_cnn w (default_data_layout w strategy) (default_kernel_layout w strategy) k True)
       TARGET k"

subsection \<open>Sample worlds\<close>

text \<open>
  A host run with the variable unset, one device on the tracker and three convolution
  tasks; and the same with an extraction that finds only two.
\<close>

definition sample_world :: "nat world" where
  "sample_world =
     \<lparr>environ = Map.empty,
      stm32f746xx_DEVICE_ID = ''arm.stm32f746xx'',
      host_DEVICE_ID = ''host'',
      host_generate_config = (\<lambda>_. [(''device_id'', PyStr ''host''), (''mem_layout'', PyNone)]),
      gen_mem_layout = (\<lambda>secs. PyList (map (\<lambda>sec. PyStr (fst sec)) secs)),
      text_summary = ''host 1'' @ [CHR 0x0A] @ ''Queue Status'' @ [CHR 0x0A] @ ''host'',
      default_data_layout = (\<lambda>_. ''NHWC''),
      default_kernel_layout = (\<lambda>_. ''HWIO''),
      gen_cifar10_cnn = (\<lambda>_ _ _ _. 0),
      collect_conv_tasks = (\<lambda>_ _ _.
        [\<lparr>task_name = ''conv0'', config_space_len = 10\<rparr>,
         \<lparr>task_name = ''conv1'', config_space_len = 1000\<rparr>,
         \<lparr>task_name = ''conv2'', config_space_len = 500\<rparr>])\<rparr>"

definition sample_globals :: globals where
  "sample_globals =
     \<lparr>DEVICE_ID = ''host'', MICRO_HEADERS = None, MICRO_INCLUDE_PATHS = None,
      OP_STRATEGIES = [conv2d_direct, conv2d_direct, conv2d_direct]\<rparr>"

definition sample_state :: state where
  "sample_state =
     \<lparr>DEV_CONFIG = [(''device_id'', PyStr ''host''), (''mem_layout'', PyNone)], trace = []\<rparr>"

definition short_world :: "nat world" where
  "short_world = sample_world\<lparr>collect_conv_tasks :=
     (\<lambda>_ _ _. [\<lparr>task_name = ''conv0'', config_space_len = 10\<rparr>,
                \<lparr>task_name = ''conv1'', config_space_len = 1000\<rparr>])\<rparr>"

text \<open>A tracker summary with two host servers and one board ahead of the queue status.\<close>

definition tracker_world :: "nat world" where
  "tracker_world = sample_world\<lparr>text_summary :=
     ''Server List'' @ [CHR 0x0A] @
     ''127.0.0.1:5555 server:host'' @ [CHR 0x0A] @
     ''127.0.0.1:5556 server:host'' @ [CHR 0x0A] @
     ''127.0.0.1:5557 server:arm.stm32f746xx'' @ [CHR 0x0A] @
     ''Queue Status'' @ [CHR 0x0A] @
     ''host 2 2 0''\<rparr>"

section \<open>Properties\<close>

subsection \<open>The trace and the string helpers\<close>

lemma trace_emit [simp]: "trace (emit e s) = trace s @ [e]"
  by (simp add: emit_def)

lemma DEV_CONFIG_emit [simp]: "DEV_CONFIG (emit e s) = DEV_CONFIG s"
  by (simp add: emit_def)

lemma trace_fold_emit: "trace (fold (\<lambda>x. emit (f x)) xs s) = trace s @ map f xs"
  by (induction xs arbitrary: s) simp_all

lemma DEV_CONFIG_fold_emit: "DEV_CONFIG (fold (\<lambda>x. emit (f x)) xs s) = DEV_CONFIG s"
  by (induction xs arbitrary: s) simp_all

text \<open>The model of \<open>in\<close> is the contiguous-sublist relation of the library.\<close>

lemma str_in_sublist: "str_in sub s = sublist sub s"
proof (induction s)
  case Nil
  show ?case by simp
next
  case (Cons c cs)
  show ?case using Cons.IH by (simp add: sublist_Cons_right)
qed

text \<open>The model of \<open>split\<close>: no piece holds a newline, and joining the pieces with
  newlines gives the string back.\<close>

lemma split_nl_not_Nil: "split_nl s \<noteq> []"
  by (induction s) (auto split: list.splits)

lemma split_nl_no_newline: "l \<in> set (split_nl s) \<Longrightarrow> CHR 0x0A \<notin> set l"
proof (induction s arbitrary: l)
  case Nil
  then show ?case by simp
next
  case (Cons c cs)
  then show ?case
    by (cases "split_nl cs") (auto split: if_splits)
qed

lemma join_split_nl: "join_nl (split_nl s) = s"
proof (induction s)
  case Nil
  show ?case by simp
next
  case (Cons c cs)
  then show ?case
    by (cases "split_nl cs"; cases "tl (split_nl cs)") (auto simp: split_nl_not_Nil)
qed

lemma split_nl_line: "CHR 0x0A \<notin> set l \<Longrightarrow> split_nl l = [l]"
  by (induction l) auto

lemma split_nl_line_break:
  "CHR 0x0A \<notin> set l \<Longrightarrow> split_nl (l @ CHR 0x0A # rest) = l # split_nl rest"
  by (induction l) auto

lemma split_join_nl:
  "ls \<noteq> [] \<Longrightarrow> \<forall>l \<in> set ls. CHR 0x0A \<notin> set l \<Longrightarrow> split_nl (join_nl ls) = ls"
proof (induction ls rule: join_nl.induct)
  case 1
  then show ?case by simp
next
  case (2 l)
  then show ?case by (simp add: split_nl_line)
next
  case (3 l v va)
  then show ?case by (simp add: split_nl_line_break)
qed

lemma count_connected_acc:
  "count_connected dev_id ls n =
     n + length (filter (str_in dev_id) (takeWhile (\<lambda>l. \<not> str_in ''Queue Status'' l) ls))"
  by (induction ls arbitrary: n) simp_all

lemma map_filter_app: "List.map_filter f (xs @ ys) = List.map_filter f xs @ List.map_filter f ys"
  by (simp add: List.map_filter_def)

lemma map_filter_map_Some:
  "(\<And>x. f (g x) = Some (h x)) \<Longrightarrow> List.map_filter f (map g xs) = map h xs"
  by (induction xs) (simp_all add: List.map_filter_simps)

lemma map_snd_enumerate: "map (\<lambda>it. h (snd it)) (enumerate n xs) = map h xs"
  by (induction xs arbitrary: n) simp_all

lemma map_const_enumerate: "map (\<lambda>it. c) (enumerate n xs) = replicate (length xs) c"
  by (induction xs arbitrary: n) simp_all

subsection \<open>The trace of \<open>tune_model\<close>\<close>

lemma tune_model_result: "fst (tune_model w g tasks lf s) = Inr ()"
  by (simp add: tune_model_def Let_def split: prod.splits)

lemma tune_model_trace:
  "trace (snd (tune_model w g tasks lf s)) =
     trace s @ [ConnectTracker TRACKER_ADDR TRACKER_PORT, TextSummary, Print ''[Tuning]''] @
     map (tune_task (measure_option_of w g s) (lf @ ''.tmp'') (length tasks)) (enumerate 0 tasks) @
     [CustomPickBest (lf @ ''.tmp'') lf 5, OsRemove (lf @ ''.tmp'')]"
  by (simp add: tune_model_def N_PARALLEL_def get_num_devices_def measure_option_of_def
      Let_def trace_fold_emit DEV_CONFIG_fold_emit)

lemma tune_model_DEV_CONFIG: "DEV_CONFIG (snd (tune_model w g tasks lf s)) = DEV_CONFIG s"
  by (simp add: tune_model_def N_PARALLEL_def get_num_devices_def
      Let_def trace_fold_emit DEV_CONFIG_fold_emit)

lemma tune_model_events:
  "events_of s (snd (tune_model w g tasks lf s)) =
     [ConnectTracker TRACKER_ADDR TRACKER_PORT, TextSummary, Print ''[Tuning]''] @
     map (tune_task (measure_option_of w g s) (lf @ ''.tmp'') (length tasks)) (enumerate 0 tasks) @
     [CustomPickBest (lf @ ''.tmp'') lf 5, OsRemove (lf @ ''.tmp'')]"
  by (simp add: events_of_def tune_model_trace)

subsection \<open>Module-level device dispatch\<close>

text \<open>
  Claim C1. A \<open>DEVICE_ID\<close> that is neither the stm32f746xx identifier nor the host
  identifier should raise \<open>RuntimeError\<close> with a message on the unknown device. The last
  branch of the dispatch names the class \<open>RuntimeErorr\<close>, which is bound nowhere: with
  the identifiers \<open>arm.stm32f746xx\<close> and \<open>host\<close>, the device \<open>unknown\<close> ends module
  initialisation with \<open>NameError\<close>, not with \<open>RuntimeError\<close>.
\<close>

theorem device_dispatch_unknown_device:
  "device_dispatch (w\<lparr>stm32f746xx_DEVICE_ID := ''arm.stm32f746xx'', host_DEVICE_ID := ''host''\<rparr>)
     ''unknown'' = Inl (NameError ''RuntimeErorr'')"
  by (simp add: device_dispatch_def py_raise_def builtin_exception_def)

subsection \<open>\<open>update_rpc_server_dev_cfg\<close>\<close>

lemma dump_dev_cfg_raises:
  "dump_dev_cfg g k base i s =
     (Inl (NameError ''RPC_SERVER_DEV_CONFIG_BASE''),
      s\<lparr>DEV_CONFIG := AList.update ''server_port'' (PyNum (PyInt (6666 + int i))) (DEV_CONFIG s)\<rparr>)"
  by (simp add: dump_dev_cfg_def load_name_def update_scope_def module_scope_def Let_def)

lemma for_loop_range10_raises:
  "for_loop [0..<10] (dump_dev_cfg g k base) s =
     (Inl (NameError ''RPC_SERVER_DEV_CONFIG_BASE''),
      s\<lparr>DEV_CONFIG := AList.update ''server_port'' (PyNum (PyInt 6666)) (DEV_CONFIG s)\<rparr>)"
proof -
  have "[0..<10] = 0 # [1..<10]"
    by (simp add: upt_rec)
  then show ?thesis
    by (simp add: dump_dev_cfg_raises)
qed

lemma update_env_present:
  assumes "environ w ''MICRO_RPC_SERVER_DEV_CONFIG_BASE'' = Some base"
      and "set_mem_layout w k s = (Inr (), s1)"
  shows "update_rpc_server_dev_cfg w g k s =
     (Inl (NameError ''RPC_SERVER_DEV_CONFIG_BASE''),
      s1\<lparr>DEV_CONFIG := AList.update ''server_port'' (PyNum (PyInt 6666)) (DEV_CONFIG s1)\<rparr>)"
  using assms by (simp add: update_rpc_server_dev_cfg_def for_loop_range10_raises)

text \<open>
  Claim C2. With \<open>MICRO_RPC_SERVER_DEV_CONFIG_BASE\<close> set, each recognised template key
  should write the ten files \<open><base>/<i>/utvm_dev_config.json\<close> with port \<open>6666 + i\<close>.
  The function binds the directory to \<open>dev_config_base\<close> but builds the path from
  \<open>RPC_SERVER_DEV_CONFIG_BASE\<close>: with the variable set to \<open>/cfg\<close>, for each of the
  three keys the call ends with \<open>NameError\<close> in the first round of the loop and no file
  is written.
\<close>

theorem update_rpc_server_dev_cfg_writes_no_file:
  "list_all
     (\<lambda>k. fst (update_rpc_server_dev_cfg
                 (w\<lparr>environ := [''MICRO_RPC_SERVER_DEV_CONFIG_BASE'' \<mapsto> ''/cfg'']\<rparr>) g k s)
             = Inl (NameError ''RPC_SERVER_DEV_CONFIG_BASE'') \<and>
          List.map_filter written_path
            (events_of s (snd (update_rpc_server_dev_cfg
                 (w\<lparr>environ := [''MICRO_RPC_SERVER_DEV_CONFIG_BASE'' \<mapsto> ''/cfg'']\<rparr>) g k s))) = [])
     [''direct'', ''direct_simd'', ''partial_im2col'']"
  by (simp add: update_env_present [where base = "''/cfg''"] set_mem_layout_def events_of_def
      List.map_filter_simps)

text \<open>
  Claim C9. With the variable set and a recognised key, \<open>DEV_CONFIG\<close> should end with the
  layout of the key under \<open>mem_layout\<close> and \<open>server_port\<close> last set to 6675. For the key
  \<open>direct\<close> and the variable set to \<open>/cfg\<close> the layout is stored, the port of the first
  round is stored, and the \<open>NameError\<close> of that round leaves \<open>server_port\<close> at 6666.
\<close>

theorem update_rpc_server_dev_cfg_port_stays_6666:
  "fst (update_rpc_server_dev_cfg
         (w\<lparr>environ := [''MICRO_RPC_SERVER_DEV_CONFIG_BASE'' \<mapsto> ''/cfg'']\<rparr>) g ''direct'' s)
     = Inl (NameError ''RPC_SERVER_DEV_CONFIG_BASE'') \<and>
   DEV_CONFIG (snd (update_rpc_server_dev_cfg
         (w\<lparr>environ := [''MICRO_RPC_SERVER_DEV_CONFIG_BASE'' \<mapsto> ''/cfg'']\<rparr>) g ''direct'' s))
     = AList.update ''server_port'' (PyNum (PyInt 6666))
         (AList.update ''mem_layout'' (gen_mem_layout w direct_sections) (DEV_CONFIG s)) \<and>
   map_of (DEV_CONFIG (snd (update_rpc_server_dev_cfg
         (w\<lparr>environ := [''MICRO_RPC_SERVER_DEV_CONFIG_BASE'' \<mapsto> ''/cfg'']\<rparr>) g ''direct'' s)))
       ''server_port'' = Some (PyNum (PyInt 6666))"
  by (simp add: update_env_present [where base = "''/cfg''"] set_mem_layout_def update_conv')



subsection \<open>\<open>tune_model\<close>\<close>

text \<open>
  Claim C4. For every task list and log file name, \<open>tune_model\<close> returns, and what it
  does to the log files is, in this order: one tuning run per task recording to
  \<open><log_file_name>.tmp\<close>, then \<open>custom_pick_best\<close> from that file to the final log file
  with \<open>top_k = 5\<close>, then the removal of the temporary file.
\<close>

theorem tune_model_log_order:
  "fst (tune_model w g tasks lf s) = Inr () \<and>
   List.map_filter log_op_of (events_of s (snd (tune_model w g tasks lf s))) =
     replicate (length tasks) (RecordTo [lf @ ''.tmp'']) @
     [PickBest (lf @ ''.tmp'') lf 5, Remove (lf @ ''.tmp'')]"
proof -
  have step: "\<And>it. log_op_of (tune_task (measure_option_of w g s) (lf @ ''.tmp'') (length tasks) it)
      = Some (RecordTo [lf @ ''.tmp''])"
    by (simp add: tune_task_def Let_def List.map_filter_simps)
  have "List.map_filter log_op_of
          (map (tune_task (measure_option_of w g s) (lf @ ''.tmp'') (length tasks)) (enumerate 0 tasks))
        = map (\<lambda>it. RecordTo [lf @ ''.tmp'']) (enumerate 0 tasks)"
    by (rule map_filter_map_Some) (rule step)
  then show ?thesis
    by (simp add: tune_model_events tune_model_result map_filter_app List.map_filter_simps
        map_const_enumerate)
qed

text \<open>
  Claim C5. Let the tracker's summary be the lines \<open>ls\<close> joined by newlines.
  \<open>get_num_devices\<close> returns the number of lines of \<open>ls\<close> that contain the device
  identifier and come before the first line containing \<open>Queue Status\<close>;
  \<open>N_PARALLEL\<close> is \<open>None\<close>, and every tuning run of \<open>tune_model\<close> measures with
  that count, taken for \<open>DEVICE_ID\<close>, as \<open>n_parallel\<close>.
\<close>

theorem get_num_devices_count:
  assumes lines: "text_summary w = join_nl ls"
      and nonempty: "ls \<noteq> []"
      and no_newline: "\<forall>l \<in> set ls. CHR 0x0A \<notin> set l"
  shows "fst (get_num_devices w dev_id s) =
           length (filter (sublist dev_id)
             (takeWhile (\<lambda>l. \<not> sublist ''Queue Status'' l) ls)) \<and>
         N_PARALLEL = None \<and>
         List.map_filter tune_n_parallel (events_of s (snd (tune_model w g tasks lf s))) =
           replicate (length tasks)
             (length (filter (sublist (DEVICE_ID g))
                (takeWhile (\<lambda>l. \<not> sublist ''Queue Status'' l) ls)))"
proof -
  have same: "str_in = sublist"
    by (intro ext) (rule str_in_sublist)
  have split: "split_nl (text_summary w) = ls"
    using split_join_nl [OF nonempty no_newline] by (simp add: lines)
  have count: "\<And>d s'. fst (get_num_devices w d s') =
     length (filter (sublist d) (takeWhile (\<lambda>l. \<not> sublist ''Queue Status'' l) ls))"
    by (simp add: get_num_devices_def Let_def count_connected_acc same split)
  have step: "\<And>it. tune_n_parallel (tune_task (measure_option_of w g s) (lf @ ''.tmp'') (length tasks) it)
      = Some (fst (get_num_devices w (DEVICE_ID g) s))"
    by (simp add: tune_task_def Let_def measure_option_of_def)
  have "List.map_filter tune_n_parallel
          (map (tune_task (measure_option_of w g s) (lf @ ''.tmp'') (length tasks)) (enumerate 0 tasks))
        = map (\<lambda>it. fst (get_num_devices w (DEVICE_ID g) s)) (enumerate 0 tasks)"
    by (rule map_filter_map_Some) (rule step)
  then have "List.map_filter tune_n_parallel (events_of s (snd (tune_model w g tasks lf s))) =
     replicate (length tasks) (fst (get_num_devices w (DEVICE_ID g) s))"
    by (simp add: tune_model_events map_filter_app List.map_filter_simps map_const_enumerate)
  then show ?thesis
    by (simp add: count N_PARALLEL_def)
qed

theorem get_num_devices_count_witness:
  "text_summary tracker_world =
     join_nl [''Server List'', ''127.0.0.1:5555 server:host'', ''127.0.0.1:5556 server:host'',
              ''127.0.0.1:5557 server:arm.stm32f746xx'', ''Queue Status'', ''host 2 2 0''] \<and>
   fst (get_num_devices tracker_world ''host'' sample_state) = 2 \<and>
   fst (get_num_devices tracker_world ''arm.stm32f746xx'' sample_state) = 1 \<and>
   List.map_filter tune_n_parallel
     (events_of sample_state
        (snd (tune_model tracker_world sample_globals
                [\<lparr>task_name = ''conv0'', config_space_len = 10\<rparr>,
                 \<lparr>task_name = ''conv1'', config_space_len = 1000\<rparr>]
                ''host.direct.e2e.log'' sample_state))) = [2, 2]"
proof -
  let ?ls = "[''Server List'', ''127.0.0.1:5555 server:host'', ''127.0.0.1:5556 server:host'',
              ''127.0.0.1:5557 server:arm.stm32f746xx'', ''Queue Status'', ''host 2 2 0'']"
  have lines: "text_summary tracker_world = join_nl ?ls"
    by (simp add: tracker_world_def)
  have nonempty: "?ls \<noteq> []"
    by simp
  have no_newline: "\<forall>l \<in> set ?ls. CHR 0x0A \<notin> set l"
    by simp
  have host: "DEVICE_ID sample_globals = ''host''"
    by (simp add: sample_globals_def)
  have h1: "sublist ''host'' ''127.0.0.1:5555 server:host''"
    by (simp add: str_in_sublist [symmetric])
  have h2: "sublist ''host'' ''127.0.0.1:5556 server:host''"
    by (simp add: str_in_sublist [symmetric])
  have h3: "\<not> sublist ''host'' ''Server List''"
    by (simp add: str_in_sublist [symmetric])
  have h4: "\<not> sublist ''host'' ''127.0.0.1:5557 server:arm.stm32f746xx''"
    by (simp add: str_in_sublist [symmetric])
  have a1: "\<not> sublist ''arm.stm32f746xx'' ''127.0.0.1:5555 server:host''"
    by (simp add: str_in_sublist [symmetric])
  have a2: "\<not> sublist ''arm.stm32f746xx'' ''127.0.0.1:5556 server:host''"
    by (simp add: str_in_sublist [symmetric])
  have a3: "\<not> sublist ''arm.stm32f746xx'' ''Server List''"
    by (simp add: str_in_sublist [symmetric])
  have a4: "sublist ''arm.stm32f746xx'' ''127.0.0.1:5557 server:arm.stm32f746xx''"
    by (simp add: str_in_sublist [symmetric])
  have q1: "\<not> sublist ''Queue Status'' ''Server List''"
    by (simp add: str_in_sublist [symmetric])
  have q2: "\<not> sublist ''Queue Status'' ''127.0.0.1:5555 server:host''"
    by (simp add: str_in_sublist [symmetric])
  have q3: "\<not> sublist ''Queue Status'' ''127.0.0.1:5556 server:host''"
    by (simp add: str_in_sublist [symmetric])
  have q4: "\<not> sublist ''Queue Status'' ''127.0.0.1:5557 server:arm.stm32f746xx''"
    by (simp add: str_in_sublist [symmetric])
  have q5: "sublist ''Queue Status'' ''Queue Status''"
    by simp
  show ?thesis
    using lines
      get_num_devices_count [OF lines nonempty no_newline,
        of "''host''" sample_state sample_globals
           "[\<lparr>task_name = ''conv0'', config_space_len = 10\<rparr>,
             \<lparr>task_name = ''conv1'', config_space_len = 1000\<rparr>]" "''host.direct.e2e.log''"]
      get_num_devices_count [OF lines nonempty no_newline,
        of "''arm.stm32f746xx''" sample_state sample_globals "[]" "''host.direct.e2e.log''"]
    by (simp add: host h1 h2 h3 h4 a1 a2 a3 a4 q1 q2 q3 q4 q5)
qed

text \<open>
  Claim C6. \<open>N_TRIAL\<close> is 500 and \<open>EARLY_STOPPING\<close> is 250, and \<open>tune_model\<close> runs the
  tuner once for each task, in order, with \<open>min(500, len(task.config_space))\<close> trials and
  early stopping after 250.
\<close>

theorem tune_model_trial_budget:
  "N_TRIAL = 500 \<and> EARLY_STOPPING = 250 \<and>
   List.map_filter tune_budget (events_of s (snd (tune_model w g tasks lf s))) =
     map (\<lambda>t. (t, min 500 (config_space_len t), 250)) tasks"
proof -
  have step: "\<And>it. tune_budget (tune_task (measure_option_of w g s) (lf @ ''.tmp'') (length tasks) it)
      = Some (snd it, min 500 (config_space_len (snd it)), 250)"
    by (simp add: tune_task_def Let_def N_TRIAL_def EARLY_STOPPING_def)
  have "List.map_filter tune_budget
          (map (tune_task (measure_option_of w g s) (lf @ ''.tmp'') (length tasks)) (enumerate 0 tasks))
        = map (\<lambda>it. (snd it, min 500 (config_space_len (snd it)), 250)) (enumerate 0 tasks)"
    by (rule map_filter_map_Some) (rule step)
  then show ?thesis
    by (simp add: tune_model_events map_filter_app List.map_filter_simps
        map_snd_enumerate [of "\<lambda>t. (t, min 500 (config_space_len t), 250)"]
        N_TRIAL_def EARLY_STOPPING_def)
qed

text \<open>
  Claim C7. For every task of the list, in order, \<open>tune_model\<close> builds a \<open>GATuner\<close> on
  the task and tunes with a runner keyed by \<open>DEVICE_ID\<close> on the tracker at
  \<open>0.0.0.0:9190\<close>, with timeout 0.
\<close>

theorem tune_model_ga_tracker:
  "List.map_filter tune_dispatch (events_of s (snd (tune_model w g tasks lf s))) =
     map (\<lambda>t. (GATuner t,
               \<lparr>r_key = DEVICE_ID g, r_host = ''0.0.0.0'', r_port = 9190,
                r_n_parallel = fst (get_num_devices w (DEVICE_ID g) s),
                r_number = 15, r_timeout = 0\<rparr>)) tasks"
proof -
  let ?r = "\<lparr>r_key = DEVICE_ID g, r_host = ''0.0.0.0'', r_port = 9190,
                r_n_parallel = fst (get_num_devices w (DEVICE_ID g) s),
                r_number = 15, r_timeout = 0\<rparr>"
  have step: "\<And>it. tune_dispatch (tune_task (measure_option_of w g s) (lf @ ''.tmp'') (length tasks) it)
      = Some (GATuner (snd it), ?r)"
    by (simp add: tune_task_def Let_def measure_option_of_def TRACKER_ADDR_def TRACKER_PORT_def
        N_PER_TRIAL_def TIMEOUT_def)
  have "List.map_filter tune_dispatch
          (map (tune_task (measure_option_of w g s) (lf @ ''.tmp'') (length tasks)) (enumerate 0 tasks))
        = map (\<lambda>it. (GATuner (snd it), ?r)) (enumerate 0 tasks)"
    by (rule map_filter_map_Some) (rule step)
  then show ?thesis
    by (simp add: tune_model_events map_filter_app List.map_filter_simps
        map_snd_enumerate [of "\<lambda>t. (GATuner t, ?r)"])
qed

subsection \<open>\<open>get_tasks\<close>\<close>

lemma get_tasks_unknown_key:
  "k \<notin> {''direct'', ''direct_simd'', ''partial_im2col''} \<Longrightarrow>
   get_tasks w k s = (Inl AssertionError, emit TaskExtractEnv s)"
  by (simp add: get_tasks_def select_template_def)

lemma get_tasks_known_key:
  assumes "k \<in> {''direct'', ''direct_simd'', ''partial_im2col''}"
  shows "\<exists>strategy s'. get_tasks w k s =
           (if length (extracted w strategy k) = 3 then Inr (extracted w strategy k)
            else Inl AssertionError, s')"
  using assms
  by (auto simp: get_tasks_def select_template_def extracted_def Let_def)

text \<open>
  Claim C8. \<open>get_tasks\<close> either returns the tasks extracted from the generated CIFAR-10
  network, exactly 3 of them, or fails with \<open>AssertionError\<close>; a template key other than
  \<open>direct\<close>, \<open>direct_simd\<close> and \<open>partial_im2col\<close> fails the assertion, and every list
  it returns has length 3.
\<close>

theorem get_tasks_three_or_assertion:
  "((\<exists>strategy s'. get_tasks w k s = (Inr (extracted w strategy k), s') \<and>
                    length (extracted w strategy k) = 3) \<or>
    (\<exists>s'. get_tasks w k s = (Inl AssertionError, s'))) \<and>
   (k \<notin> {''direct'', ''direct_simd'', ''partial_im2col''} \<longrightarrow>
      fst (get_tasks w k s) = Inl AssertionError) \<and>
   (\<forall>tasks. fst (get_tasks w k s) = Inr tasks \<longrightarrow> length tasks = 3)"
proof (cases "k \<in> {''direct'', ''direct_simd'', ''partial_im2col''}")
  case True
  then obtain strategy s' where r: "get_tasks w k s =
           (if length (extracted w strategy k) = 3 then Inr (extracted w strategy k)
            else Inl AssertionError, s')"
    using get_tasks_known_key by blast
  show ?thesis
  proof (cases "length (extracted w strategy k) = 3")
    case three: True
    with r have "get_tasks w k s = (Inr (extracted w strategy k), s')" by simp
    with three True show ?thesis by auto
  next
    case False
    with r have "get_tasks w k s = (Inl AssertionError, s')" by simp
    with True show ?thesis by auto
  qed
next
  case False
  then show ?thesis
    by (simp add: get_tasks_unknown_key)
qed

theorem get_tasks_three_or_assertion_witness:
  "''bogus'' \<notin> {''direct'', ''direct_simd'', ''partial_im2col''} \<and>
   fst (get_tasks sample_world ''bogus'' sample_state) = Inl AssertionError \<and>
   fst (get_tasks short_world ''direct'' sample_state) = Inl AssertionError \<and>
   fst (get_tasks sample_world ''direct_simd'' sample_state) =
     Inr [\<lparr>task_name = ''conv0'', config_space_len = 10\<rparr>,
          \<lparr>task_name = ''conv1'', config_space_len = 1000\<rparr>,
          \<lparr>task_name = ''conv2'', config_space_len = 500\<rparr>] \<and>
   length [\<lparr>task_name = ''conv0'', config_space_len = 10\<rparr>,
           \<lparr>task_name = ''conv1'', config_space_len = 1000\<rparr>,
           \<lparr>task_name = ''conv2'', config_space_len = 500\<rparr>] = 3"
proof -
  have bogus: "''bogus'' \<notin> {''direct'', ''direct_simd'', ''partial_im2col''}"
    by simp
  have ok: "fst (get_tasks sample_world ''direct_simd'' sample_state) =
     Inr [\<lparr>task_name = ''conv0'', config_space_len = 10\<rparr>,
          \<lparr>task_name = ''conv1'', config_space_len = 1000\<rparr>,
          \<lparr>task_name = ''conv2'', config_space_len = 500\<rparr>]"
    by (simp add: get_tasks_def select_template_def sample_world_def Let_def)
  have short: "fst (get_tasks short_world ''direct'' sample_state) = Inl AssertionError"
    by (simp add: get_tasks_def select_template_def short_world_def sample_world_def Let_def)
  show ?thesis
    using bogus ok short
      get_tasks_three_or_assertion [of sample_world "''bogus''" sample_state]
      get_tasks_three_or_assertion [of sample_world "''direct_simd''" sample_state]
    by simp
qed

subsection \<open>\<open>main\<close>\<close>

lemma module_init_Inr:
  assumes "module_init w = Inr (g, s)"
  shows "DEVICE_ID g = host_DEVICE_ID w \<and> trace s = [] \<and>
         DEV_CONFIG s = host_generate_config w None"
  using assms
  by (auto simp: module_init_def device_dispatch_def split: if_splits sum.splits)

lemma get_tasks_direct:
  assumes "length (extracted w conv2d_direct ''direct'') = 3"
  shows "get_tasks w ''direct'' s =
     (Inr (extracted w conv2d_direct ''direct''),
      s\<lparr>trace := trace s @
         [TaskExtractEnv, RegisterTask ''topi_nn_conv2d'' conv2d_direct,
          GenCifar10Cnn (default_data_layout w conv2d_direct)
            (default_kernel_layout w conv2d_direct) ''direct'' True,
          CollectConvTasks TARGET ''direct'', Print ''extracted 3 tasks'']\<rparr>)"
proof -
  have three: "str_nat 3 = ''3''"
    by code_simp
  show ?thesis
    using assms
    by (simp add: get_tasks_def select_template_def extracted_def Let_def emit_def three)
qed

text \<open>
  Claim C10, as amended. After module initialisation, when
  \<open>MICRO_RPC_SERVER_DEV_CONFIG_BASE\<close> is not in the environment and the extraction for
  \<open>direct\<close> yields exactly 3 tasks, \<open>main\<close> returns after exactly one tuning phase, for the
  single template key \<open>direct\<close>: the events of the configuration update, then those of the
  task extraction, then those of the tuning, whose final log file is
  \<open><DEVICE_ID>.direct.e2e.log\<close> with \<open>DEVICE_ID\<close> the host device identifier.
\<close>

theorem main_single_phase:
  assumes init: "module_init w = Inr (g, s)"
      and absent: "environ w ''MICRO_RPC_SERVER_DEV_CONFIG_BASE'' = None"
      and three: "length (extracted w conv2d_direct ''direct'') = 3"
  shows "TEMPLATE_KEYS = [''direct''] \<and>
         fst (main w g s) = Inr () \<and>
         trace (snd (main w g s)) =
           [Print WARNING, Input ''[press enter to continue]''] @
           [TaskExtractEnv, RegisterTask ''topi_nn_conv2d'' conv2d_direct,
            GenCifar10Cnn (default_data_layout w conv2d_direct)
              (default_kernel_layout w conv2d_direct) ''direct'' True,
            CollectConvTasks TARGET ''direct'', Print ''extracted 3 tasks''] @
           [ConnectTracker TRACKER_ADDR TRACKER_PORT, TextSummary, Print ''[Tuning]''] @
           map (tune_task (measure_option_of w g s)
                  (host_DEVICE_ID w @ ''.direct.e2e.log.tmp'') 3)
             (enumerate 0 (extracted w conv2d_direct ''direct'')) @
           [CustomPickBest (host_DEVICE_ID w @ ''.direct.e2e.log.tmp'')
              (host_DEVICE_ID w @ ''.direct.e2e.log'') 5,
            OsRemove (host_DEVICE_ID w @ ''.direct.e2e.log.tmp'')]"
proof -
  from init have g: "DEVICE_ID g = host_DEVICE_ID w" and s: "trace s = []"
    by (simp_all add: module_init_Inr)
  obtain s1 where u: "update_rpc_server_dev_cfg w g ''direct'' s = (Inr (), s1)"
    and s1: "s1 = emit (Input ''[press enter to continue]'') (emit (Print WARNING) s)"
    using absent by (simp add: update_rpc_server_dev_cfg_def WARNING_def)
  obtain s2 where t: "get_tasks w ''direct'' s1 = (Inr (extracted w conv2d_direct ''direct''), s2)"
    and s2: "s2 = s1\<lparr>trace := trace s1 @
         [TaskExtractEnv, RegisterTask ''topi_nn_conv2d'' conv2d_direct,
          GenCifar10Cnn (default_data_layout w conv2d_direct)
            (default_kernel_layout w conv2d_direct) ''direct'' True,
          CollectConvTasks TARGET ''direct'', Print ''extracted 3 tasks'']\<rparr>"
    using get_tasks_direct [OF three] by simp
  have m: "main w g s =
      tune_model w g (extracted w conv2d_direct ''direct'') (host_DEVICE_ID w @ ''.direct.e2e.log'') s2"
    by (simp add: main_def TEMPLATE_KEYS_def tuning_phase_def u t g Let_def tune_model_result
        split: prod.splits sum.splits)
  have mo: "measure_option_of w g s2 = measure_option_of w g s"
    by (simp add: measure_option_of_def s2 s1 get_num_devices_def Let_def)
  have tr: "trace (snd (main w g s)) =
      trace s2 @ [ConnectTracker TRACKER_ADDR TRACKER_PORT, TextSummary, Print ''[Tuning]''] @
      map (tune_task (measure_option_of w g s)
             (host_DEVICE_ID w @ ''.direct.e2e.log.tmp'') 3)
        (enumerate 0 (extracted w conv2d_direct ''direct'')) @
      [CustomPickBest (host_DEVICE_ID w @ ''.direct.e2e.log.tmp'')
         (host_DEVICE_ID w @ ''.direct.e2e.log'') 5,
       OsRemove (host_DEVICE_ID w @ ''.direct.e2e.log.tmp'')]"
    by (simp add: m tune_model_trace mo three)
  have pre: "trace s2 =
      [Print WARNING, Input ''[press enter to continue]''] @
      [TaskExtractEnv, RegisterTask ''topi_nn_conv2d'' conv2d_direct,
       GenCifar10Cnn (default_data_layout w conv2d_direct)
         (default_kernel_layout w conv2d_direct) ''direct'' True,
       CollectConvTasks TARGET ''direct'', Print ''extracted 3 tasks'']"
    by (simp add: s2 s1 s)
  have res: "fst (main w g s) = Inr ()"
    by (simp only: m tune_model_result)
  show ?thesis
    by (simp only: tr pre res TEMPLATE_KEYS_def append_assoc simp_thms)
qed

theorem main_single_phase_witness:
  "module_init sample_world = Inr (sample_globals, sample_state) \<and>
   environ sample_world ''MICRO_RPC_SERVER_DEV_CONFIG_BASE'' = None \<and>
   length (extracted sample_world conv2d_direct ''direct'') = 3 \<and>
   fst (main sample_world sample_globals sample_state) = Inr () \<and>
   List.map_filter log_op_of (trace (snd (main sample_world sample_globals sample_state))) =
     [RecordTo [''host.direct.e2e.log.tmp''], RecordTo [''host.direct.e2e.log.tmp''],
      RecordTo [''host.direct.e2e.log.tmp''],
      PickBest ''host.direct.e2e.log.tmp'' ''host.direct.e2e.log'' 5,
      Remove ''host.direct.e2e.log.tmp'']"
proof -
  have init: "module_init sample_world = Inr (sample_globals, sample_state)"
    by (simp add: module_init_def device_dispatch_def sample_world_def sample_globals_def
        sample_state_def)
  have absent: "environ sample_world ''MICRO_RPC_SERVER_DEV_CONFIG_BASE'' = None"
    by (simp add: sample_world_def)
  have three: "length (extracted sample_world conv2d_direct ''direct'') = 3"
    by (simp add: extracted_def sample_world_def)
  have tasks: "extracted sample_world conv2d_direct ''direct'' =
     [\<lparr>task_name = ''conv0'', config_space_len = 10\<rparr>,
      \<lparr>task_name = ''conv1'', config_space_len = 1000\<rparr>,
      \<lparr>task_name = ''conv2'', config_space_len = 500\<rparr>]"
    by (simp add: extracted_def sample_world_def)
  have host: "host_DEVICE_ID sample_world = ''host''"
    by (simp add: sample_world_def)
  show ?thesis
    using init absent three main_single_phase [OF init absent three]
    by (simp add: tasks host tune_task_def Let_def List.map_filter_simps)
qed

text \<open>
  The claim as first stated, with no condition, fails: in the world whose extraction
  finds two tasks the assertion of \<open>get_tasks\<close> ends \<open>main\<close>, and no tuning run, no
  \<open>custom_pick_best\<close> and no final log file follow.
\<close>

theorem main_single_phase_counterexample:
  "fst (main short_world sample_globals sample_state) = Inl AssertionError \<and>
   List.map_filter log_op_of (trace (snd (main short_world sample_globals sample_state))) = []"
  by (simp add: main_def TEMPLATE_KEYS_def tuning_phase_def update_rpc_server_dev_cfg_def
      get_tasks_def select_template_def short_world_def sample_world_def sample_state_def
      Let_def emit_def List.map_filter_simps)

end
